theory Spec2Isabelle
  imports Main "HOL-Library.Word"
begin

section \<open>Python values used by \<open>Translate_Final.py\<close>\<close>

text \<open>
  A Python \<open>str\<close> is a sequence of Unicode code points, so it is modelled as a list of
  code points (\<open>str.strip\<close> and \<open>len\<close> work on code points, not on bytes). String
  literals of the source are written with \<open>py\<close>.
\<close>

type_synonym pystr = "nat list"

type_synonym bytes = "8 word list"

definition py :: "string \<Rightarrow> pystr" where
  "py s = map of_char s"

text \<open>\<open>str(i)\<close> for a non-negative integer: its decimal digits.\<close>

fun str_nat :: "nat \<Rightarrow> pystr" where
  "str_nat n = (if n < 10 then [48 + n] else str_nat (n div 10) @ [48 + n mod 10])"

declare str_nat.simps [simp del]

text \<open>
  \<open>str.isspace\<close> on one code point: the code points that CPython treats as whitespace
  (U+0009..U+000D, U+001C..U+0020, U+0085, U+00A0, U+1680, U+2000..U+200A, U+2028,
  U+2029, U+202F, U+205F, U+3000).
\<close>

definition isspace :: "nat \<Rightarrow> bool" where
  "isspace c \<longleftrightarrow>
     (9 \<le> c \<and> c \<le> 13) \<or> (28 \<le> c \<and> c \<le> 32) \<or> c = 133 \<or> c = 160 \<or> c = 5760 \<or>
     (8192 \<le> c \<and> c \<le> 8202) \<or> c = 8232 \<or> c = 8233 \<or> c = 8239 \<or> c = 8287 \<or> c = 12288"

text \<open>\<open>s.strip()\<close>: leading and trailing whitespace removed.\<close>

definition strip :: "pystr \<Rightarrow> pystr" where
  "strip s = rev (dropWhile isspace (rev (dropWhile isspace s)))"

text \<open>\<open>sep.join(xs)\<close>.\<close>

fun join :: "pystr \<Rightarrow> pystr list \<Rightarrow> pystr" where
  "join sep [] = []"
| "join sep [x] = x"
| "join sep (x # y # ys) = x @ sep @ join sep (y # ys)"

text \<open>
  The objects that \<open>resp.json()\<close> can return (the keys of a decoded JSON object are
  strings; a float is kept as its literal), and the two kinds of subscript the program
  applies to them.
\<close>

datatype pyval =
    PyNone
  | PyBool bool
  | PyInt int
  | PyFloat string
  | PyStr pystr
  | PyList "pyval list"
  | PyDict "(pystr \<times> pyval) list"

datatype key = KStr pystr | KInt int

text \<open>
  The exceptions below \<open>Exception\<close> that the program's own expressions raise, and
  \<open>LibraryError\<close> (with its message) for whatever an external library raises.
\<close>

datatype pyexn =
    KeyError key
  | IndexError
  | TypeError
  | AttributeError
  | LibraryError pystr

text \<open>Sequence indexing \<open>xs[i]\<close>: a negative index counts from the end.\<close>

definition seq_index :: "'a list \<Rightarrow> int \<Rightarrow> pyexn + 'a" where
  "seq_index xs i =
     (if 0 \<le> i then
        (if nat i < length xs then Inr (xs ! nat i) else Inl IndexError)
      else if nat (- i) \<le> length xs then Inr (xs ! (length xs - nat (- i)))
      else Inl IndexError)"

text \<open>\<open>obj[k]\<close> on a decoded JSON value.\<close>

fun getitem :: "pyval \<Rightarrow> key \<Rightarrow> pyexn + pyval" where
  "getitem (PyDict d) (KStr k) =
     (case map_of d k of None \<Rightarrow> Inl (KeyError (KStr k)) | Some v \<Rightarrow> Inr v)"
| "getitem (PyDict d) (KInt i) = Inl (KeyError (KInt i))"
| "getitem (PyList xs) (KInt i) = seq_index xs i"
| "getitem (PyList xs) (KStr k) = Inl TypeError"
| "getitem (PyStr s) (KInt i) =
     (case seq_index s i of Inl ex \<Rightarrow> Inl ex | Inr c \<Rightarrow> Inr (PyStr [c]))"
| "getitem (PyStr s) (KStr k) = Inl TypeError"
| "getitem PyNone k = Inl TypeError"
| "getitem (PyBool b) k = Inl TypeError"
| "getitem (PyInt n) k = Inl TypeError"
| "getitem (PyFloat x) k = Inl TypeError"

text \<open>Truth value of an optional string (\<open>None\<close> and \<open>""\<close> are false).\<close>

fun truthy :: "pystr option \<Rightarrow> bool" where
  "truthy None = False"
| "truthy (Some s) = (s \<noteq> [])"

text \<open>\<open>x or ""\<close> for an optional string.\<close>

fun or_empty :: "pystr option \<Rightarrow> pystr" where
  "or_empty None = []"
| "or_empty (Some s) = (if s \<noteq> [] then s else [])"

section \<open>The language table\<close>

definition DEEPL_SUPPORTED_LANGS :: "(pystr \<times> pystr) list" where
  "DEEPL_SUPPORTED_LANGS =
    [(py ''BG'', py ''Bulgarian''), (py ''CS'', py ''Czech''), (py ''DA'', py ''Danish''),
     (py ''DE'', py ''German''), (py ''EL'', py ''Greek''),
     (py ''EN'', py ''English''), (py ''ES'', py ''Spanish''), (py ''ET'', py ''Estonian''),
     (py ''FI'', py ''Finnish''), (py ''FR'', py ''French''),
     (py ''HU'', py ''Hungarian''), (py ''ID'', py ''Indonesian''), (py ''IT'', py ''Italian''),
     (py ''JA'', py ''Japanese''),
     (py ''KO'', py ''Korean''), (py ''LT'', py ''Lithuanian''), (py ''LV'', py ''Latvian''),
     (py ''NB'', py ''Norwegian (Bokm'' @ [229] @ py ''l)''),
     (py ''NL'', py ''Dutch''), (py ''PL'', py ''Polish''), (py ''PT'', py ''Portuguese''),
     (py ''RO'', py ''Romanian''), (py ''RU'', py ''Russian''),
     (py ''SK'', py ''Slovak''), (py ''SL'', py ''Slovenian''), (py ''SV'', py ''Swedish''),
     (py ''TR'', py ''Turkish''),
     (py ''UK'', py ''Ukrainian''), (py ''ZH'', py ''Chinese'')]"

text \<open>
  \<open>{v:k for k,v in DEEPL_SUPPORTED_LANGS.items()}\<close>: the entries are stored in order, a
  later entry replacing an earlier one with the same key.
\<close>

fun dict_set :: "('k \<times> 'v) list \<Rightarrow> 'k \<Rightarrow> 'v \<Rightarrow> ('k \<times> 'v) list" where
  "dict_set [] k v = [(k, v)]"
| "dict_set ((k', v') # d) k v = (if k' = k then (k, v) # d else (k', v') # dict_set d k v)"

definition LANG_NAME_TO_CODE :: "(pystr \<times> pystr) list" where
  "LANG_NAME_TO_CODE = foldl (\<lambda>d (k, v). dict_set d v k) [] DEEPL_SUPPORTED_LANGS"

section \<open>The environment: module flags and external libraries\<close>

text \<open>
  \<open>p.extract_text()\<close> on a page either raises or returns a string or \<open>None\<close>. An opened
  PDF is its pages in document order, and what closing it (leaving the \<open>with\<close> block)
  does.
\<close>

type_synonym page = "pyexn + pystr option"

record pdf =
  pdf_pages :: "page list"
  pdf_close :: "pyexn option"

record deepl_request =
  url :: pystr
  data_auth_key :: "pystr option"
  data_text :: pystr
  data_target_lang :: pystr
  timeout :: nat

record response =
  status_code :: int
  resp_text :: pystr
  resp_json :: "pyexn + pyval"

record chat_message =
  role :: pystr
  content :: pystr

record chat_request =
  api_key :: pystr
  model :: pystr
  messages :: "chat_message list"

text \<open>A completion is the list of its choices, each the \<open>message.content\<close> of the choice.\<close>

type_synonym completion = "pystr option list"

record module_env =
  PDFPLUMBER_AVAILABLE :: bool
  PDFPLUMBER_ERR :: pystr
  OPENAI_AVAILABLE :: bool
  pdfplumber_open :: "bytes \<Rightarrow> pyexn + pdf"
  requests_post :: "deepl_request \<Rightarrow> pyexn + response"
  chat_completions_create :: "chat_request \<Rightarrow> pyexn + completion"

datatype netcall = Post deepl_request | Create chat_request

datatype provider = O3_mini | DeepL

text \<open>What the page shows: one constructor for each \<open>st.*\<close> call of the two actions.\<close>

datatype event =
    Error_pdfplumber_import pystr
  | Error_pdf_parsing pyexn
  | Warning_upload_first
  | Subheader_pdf_markdown
  | Markdown pyval
  | Subheader_translate
  | Info_run_conversion_first
  | Info_already_english
  | Warning_add_openai_key
  | Warning_add_deepl_key
  | Spinner provider
  | Markdown_translated pystr
  | Error_deepl int pystr
  | Error_deepl_request_failed pyexn
  | Error_o3_mini pyexn

record session =
  OPENAI_API_KEY :: "pystr option"
  DEEPL_API_KEY :: "pystr option"
  analysis_result :: "pystr option"

section \<open>The Extractor: \<open>pdf_to_markdown\<close>\<close>

text \<open>
  The loop \<open>for i, p in enumerate(pdf.pages, 1)\<close>: \<open>i\<close> is the page number, \<open>pages_md\<close>
  the blocks appended so far; an exception of \<open>extract_text\<close> leaves the loop.
\<close>

fun pages_loop :: "nat \<Rightarrow> page list \<Rightarrow> pystr list \<Rightarrow> pyexn + pystr list" where
  "pages_loop i [] pages_md = Inr pages_md"
| "pages_loop i (p # ps) pages_md =
     (case p of
        Inl ex \<Rightarrow> Inl ex
      | Inr r \<Rightarrow>
          (let text = or_empty r;
               page_md = py ''## Page '' @ str_nat i @ py ''\<newline>\<newline>'' @ strip text
           in pages_loop (Suc i) ps (pages_md @ [page_md])))"

text \<open>
  The \<open>with\<close> block and the \<open>return\<close> after it: the PDF is closed whether the loop
  raised or not, and an exception of the close replaces the loop's.
\<close>

definition with_pdf :: "pdf \<Rightarrow> pyexn + pystr" where
  "with_pdf pdf =
     (case pages_loop 1 (pdf_pages pdf) [] of
        Inl ex \<Rightarrow> (case pdf_close pdf of Some ex' \<Rightarrow> Inl ex' | None \<Rightarrow> Inl ex)
      | Inr pages_md \<Rightarrow>
          (case pdf_close pdf of
             Some ex' \<Rightarrow> Inl ex'
           | None \<Rightarrow> Inr (join (py ''\<newline>\<newline>'') pages_md)))"

definition pdf_to_markdown :: "module_env \<Rightarrow> bytes \<Rightarrow> pystr \<times> event list" where
  "pdf_to_markdown env pdf_bytes =
     (if \<not> PDFPLUMBER_AVAILABLE env then ([], [Error_pdfplumber_import (PDFPLUMBER_ERR env)])
      else
        (case pdfplumber_open env pdf_bytes of
           Inl ex \<Rightarrow> ([], [Error_pdf_parsing ex])
         | Inr pdf \<Rightarrow>
             (case with_pdf pdf of
                Inl ex \<Rightarrow> ([], [Error_pdf_parsing ex])
              | Inr md \<Rightarrow> (md, []))))"

section \<open>The convert action\<close>

text \<open>
  Lines 158 to 170: \<open>analyze_button\<close> is the value of the button, \<open>uploaded_pdf\<close> the
  uploaded file's bytes (\<open>None\<close> when no file is present).
\<close>

definition convert_action ::
  "module_env \<Rightarrow> session \<Rightarrow> bool \<Rightarrow> bytes option \<Rightarrow> event list \<times> session" where
  "convert_action env s analyze_button uploaded_pdf =
     (if analyze_button then
        (case uploaded_pdf of
           None \<Rightarrow> ([Warning_upload_first], s)
         | Some pdf_bytes \<Rightarrow>
             (let (result, evs) = pdf_to_markdown env pdf_bytes
              in ([Subheader_pdf_markdown] @ evs @
                  [Markdown (PyStr (py ''### Resulting Markdown'')),
                   Markdown (PyStr (if result \<noteq> [] then result else py ''*No output*''))],
                  s\<lparr>analysis_result := Some result\<rparr>)))
      else ([], s))"

section \<open>The Provider Dispatcher and the translate action\<close>

text \<open>
  \<open>openai_client\<close> (lines 111 to 114): a client, known by its key, or \<open>None\<close>.
\<close>

definition openai_client :: "module_env \<Rightarrow> session \<Rightarrow> pystr option" where
  "openai_client env s =
     (if OPENAI_AVAILABLE env \<and> truthy (OPENAI_API_KEY s) then OPENAI_API_KEY s else None)"

text \<open>\<open>resp.json()["translations"][0]["text"]\<close>.\<close>

definition first_translation :: "response \<Rightarrow> pyexn + pyval" where
  "first_translation resp =
     (case resp_json resp of
        Inl ex \<Rightarrow> Inl ex
      | Inr j \<Rightarrow>
          (case getitem j (KStr (py ''translations'')) of
             Inl ex \<Rightarrow> Inl ex
           | Inr ts \<Rightarrow>
               (case getitem ts (KInt 0) of
                  Inl ex \<Rightarrow> Inl ex
                | Inr t \<Rightarrow> getitem t (KStr (py ''text'')))))"

text \<open>
  The DeepL branch (lines 195 to 212). The \<open>data\<close> dictionary is built before
  \<open>requests.post\<close> is called, so a missing key of \<open>LANG_NAME_TO_CODE\<close> raises first.
\<close>

definition deepl_branch ::
  "module_env \<Rightarrow> session \<Rightarrow> pystr \<Rightarrow> pystr \<Rightarrow> event list \<times> netcall list" where
  "deepl_branch env s src_md target =
     (case map_of LANG_NAME_TO_CODE target of
        None \<Rightarrow> ([Error_deepl_request_failed (KeyError (KStr target))], [])
      | Some code \<Rightarrow>
          (let req = \<lparr>url = py ''https://api-free.deepl.com/v2/translate'',
                       data_auth_key = DEEPL_API_KEY s,
                       data_text = src_md,
                       data_target_lang = code,
                       timeout = 30\<rparr>
           in (case requests_post env req of
                 Inl ex \<Rightarrow> ([Error_deepl_request_failed ex], [Post req])
               | Inr resp \<Rightarrow>
                   (if status_code resp = 200 then
                      (case first_translation resp of
                         Inl ex \<Rightarrow> ([Error_deepl_request_failed ex], [Post req])
                       | Inr tr \<Rightarrow> ([Markdown_translated target, Markdown tr], [Post req]))
                    else ([Error_deepl (status_code resp) (resp_text resp)], [Post req])))))"

text \<open>
  The o3-mini branch (lines 214 to 231). With \<open>openai_client\<close> being \<open>None\<close>, the
  attribute access \<open>openai_client.chat\<close> raises \<open>AttributeError\<close>; so does \<open>.strip()\<close> on
  a \<open>content\<close> that is \<open>None\<close>, and \<open>choices[0]\<close> raises \<open>IndexError\<close> on no choices.
\<close>

definition system_msg :: "pystr \<Rightarrow> pystr" where
  "system_msg target =
     py ''Translate the following Markdown into '' @ target @ py '', '' @
     py ''preserving all headings and formatting. '' @
     py ''Respond ONLY with the translation.''"

definition o3_mini_branch ::
  "module_env \<Rightarrow> session \<Rightarrow> pystr \<Rightarrow> pystr \<Rightarrow> event list \<times> netcall list" where
  "o3_mini_branch env s src_md target =
     (case openai_client env s of
        None \<Rightarrow> ([Error_o3_mini AttributeError], [])
      | Some k \<Rightarrow>
          (let req = \<lparr>api_key = k,
                       model = py ''o3-mini'',
                       messages = [\<lparr>role = py ''system'', content = system_msg target\<rparr>,
                                   \<lparr>role = py ''user'', content = src_md\<rparr>]\<rparr>
           in (case chat_completions_create env req of
                 Inl ex \<Rightarrow> ([Error_o3_mini ex], [Create req])
               | Inr completion \<Rightarrow>
                   (case seq_index completion 0 of
                      Inl ex \<Rightarrow> ([Error_o3_mini ex], [Create req])
                    | Inr None \<Rightarrow> ([Error_o3_mini AttributeError], [Create req])
                    | Inr (Some c) \<Rightarrow>
                        ([Markdown_translated target, Markdown (PyStr (strip c))],
                         [Create req])))))"

text \<open>
  The translation section (lines 174 to 231). \<open>target\<close> is the value of the select box
  and \<open>translate_clicked\<close> the value of the button \<open>Translate Markdown\<close>, which is read
  only where the button is drawn. The result is what is shown, the outbound calls made,
  and the session afterwards.
\<close>

record translate_inputs =
  target :: pystr
  translate_clicked :: bool

definition translate_action ::
  "module_env \<Rightarrow> provider \<Rightarrow> session \<Rightarrow> pystr \<Rightarrow> translate_inputs
     \<Rightarrow> event list \<times> netcall list \<times> session" where
  "translate_action env translation_provider s src_md inp =
     (if target inp = py ''English'' then
        ([Subheader_translate, Info_already_english], [], s)
      else
        (let w1 = (if translation_provider = O3_mini \<and> openai_client env s = None
                   then [Warning_add_openai_key] else []);
             w2 = (if translation_provider = DeepL \<and> \<not> truthy (DEEPL_API_KEY s)
                   then [Warning_add_deepl_key] else [])
         in if translate_clicked inp then
              (let (evs, calls) =
                     (if translation_provider = DeepL
                      then deepl_branch env s src_md (target inp)
                      else o3_mini_branch env s src_md (target inp))
               in ([Subheader_translate] @ w1 @ w2 @ [Spinner translation_provider] @ evs,
                   calls, s))
            else ([Subheader_translate] @ w1 @ w2, [], s)))"

text \<open>
  \<open>not st.session_state.get("analysis_result")\<close> holds when the key is absent and when
  the stored Markdown is the empty string; otherwise \<open>src_md\<close> is the stored Markdown.
\<close>

definition translation_container ::
  "module_env \<Rightarrow> provider \<Rightarrow> session \<Rightarrow> translate_inputs
     \<Rightarrow> event list \<times> netcall list \<times> session" where
  "translation_container env translation_provider s inp =
     (case analysis_result s of
        None \<Rightarrow> ([Subheader_translate, Info_run_conversion_first], [], s)
      | Some src_md \<Rightarrow>
          (if src_md = [] then ([Subheader_translate, Info_run_conversion_first], [], s)
           else translate_action env translation_provider s src_md inp))"

text \<open>The block of page \<open>n\<close> with body \<open>body\<close>, as the specification writes it.\<close>

definition page_block :: "nat \<Rightarrow> pystr \<Rightarrow> pystr" where
  "page_block n body = py ''## Page '' @ str_nat n @ py ''\<newline>\<newline>'' @ body"

text \<open>
  The request that the DeepL branch posts for a session, a source text and a language
  code, and the request that the o3-mini branch sends for a client key, a source text
  and a language name, written out in full.
\<close>

definition deepl_request_of :: "session \<Rightarrow> pystr \<Rightarrow> pystr \<Rightarrow> deepl_request" where
  "deepl_request_of s src_md code =
     \<lparr>url = py ''https://api-free.deepl.com/v2/translate'',
      data_auth_key = DEEPL_API_KEY s, data_text = src_md, data_target_lang = code, timeout = 30\<rparr>"

definition chat_request_of :: "pystr \<Rightarrow> pystr \<Rightarrow> pystr \<Rightarrow> chat_request" where
  "chat_request_of k src_md lang =
     \<lparr>api_key = k, model = py ''o3-mini'',
      messages =
        [\<lparr>role = py ''system'',
          content = py ''Translate the following Markdown into '' @ lang @
                    py '', preserving all headings and formatting. Respond ONLY with the translation.''\<rparr>,
         \<lparr>role = py ''user'', content = src_md\<rparr>]\<rparr>"

section \<open>Concrete inputs\<close>

text \<open>A PDF of two pages, the second without extractable text, and one without pages.\<close>

definition demo_pdf :: pdf where
  "demo_pdf = \<lparr>pdf_pages = [Inr (Some (py ''Hello'')), Inr None], pdf_close = None\<rparr>"

definition empty_pdf :: pdf where
  "empty_pdf = \<lparr>pdf_pages = [], pdf_close = None\<rparr>"

text \<open>
  An environment in which every library is importable, given by what opening a PDF, the
  POST to DeepL and the chat completion do.
\<close>

definition env_of ::
  "(pyexn + pdf) \<Rightarrow> (pyexn + response) \<Rightarrow> (pyexn + completion) \<Rightarrow> module_env" where
  "env_of opened posted completed =
     \<lparr>PDFPLUMBER_AVAILABLE = True, PDFPLUMBER_ERR = [], OPENAI_AVAILABLE = True,
      pdfplumber_open = (\<lambda>b. opened),
      requests_post = (\<lambda>r. posted),
      chat_completions_create = (\<lambda>r. completed)\<rparr>"

definition demo_env :: module_env where
  "demo_env = env_of (Inr demo_pdf) (Inl (LibraryError [])) (Inl (LibraryError []))"

text \<open>
  A PDF whose second page cannot be read, and an environment without the PDF library.
\<close>

definition failing_pdf :: pdf where
  "failing_pdf =
     \<lparr>pdf_pages = [Inr (Some (py ''Hello'')), Inl (LibraryError (py ''bad page''))],
      pdf_close = None\<rparr>"

definition no_pdfplumber_env :: module_env where
  "no_pdfplumber_env =
     \<lparr>PDFPLUMBER_AVAILABLE = False, PDFPLUMBER_ERR = py ''ModuleNotFoundError'',
      OPENAI_AVAILABLE = True,
      pdfplumber_open = (\<lambda>b. Inr demo_pdf),
      requests_post = (\<lambda>r. Inl (LibraryError [])),
      chat_completions_create = (\<lambda>r. Inl (LibraryError []))\<rparr>"

text \<open>
  The Markdown of \<open>demo_pdf\<close>, sessions holding it without and with credentials, a click
  on \<open>Translate Markdown\<close> with a target language selected, and two responses of DeepL.
\<close>

definition demo_md :: pystr where
  "demo_md = py ''## Page 1\<newline>\<newline>Hello\<newline>\<newline>## Page 2\<newline>\<newline>''"

definition no_key_session :: session where
  "no_key_session = \<lparr>OPENAI_API_KEY = None, DEEPL_API_KEY = None, analysis_result = Some demo_md\<rparr>"

definition keyed_session :: session where
  "keyed_session =
     \<lparr>OPENAI_API_KEY = Some (py ''sk-test''), DEEPL_API_KEY = Some (py ''dl-test''),
      analysis_result = Some demo_md\<rparr>"

definition click :: "pystr \<Rightarrow> translate_inputs" where
  "click t = \<lparr>target = t, translate_clicked = True\<rparr>"

definition bonjour_response :: response where
  "bonjour_response =
     \<lparr>status_code = 200, resp_text = py ''{\"translations\":[{\"text\":\"Bonjour\"}]}'',
      resp_json = Inr (PyDict [(py ''translations'',
                                PyList [PyDict [(py ''text'', PyStr (py ''Bonjour''))]])])\<rparr>"

definition forbidden_response :: response where
  "forbidden_response =
     \<lparr>status_code = 403, resp_text = py ''Forbidden'', resp_json = Inl (LibraryError [])\<rparr>"

section \<open>The Extractor assembles one block per page\<close>

lemma pages_loop_all_returned:
  "pages_loop i (map Inr texts) pages_md =
     Inr (pages_md @
          map (\<lambda>k. page_block (i + k) (strip (or_empty (texts ! k)))) [0..<length texts])"
proof (induction texts arbitrary: i pages_md)
  case Nil
  show ?case by simp
next
  case (Cons t ts)
  have shift: "[0..<length (t # ts)] = 0 # map Suc [0..<length ts]"
    by (simp add: upt_conv_Cons map_Suc_upt del: upt_Suc)
  show ?case
    unfolding shift by (simp add: Cons.IH Let_def comp_def page_block_def)
qed

lemma strip_Nil: "strip [] = []"
  by (simp add: strip_def)

text \<open>
  Claim C1. When the PDF library is available, the PDF opens, every page's
  \<open>extract_text\<close> returns (a string or \<open>None\<close>) and the PDF closes, \<open>pdf_to_markdown\<close>
  returns, with nothing reported, the blocks \<open>## Page n\<close>, blank line, trimmed text of
  page \<open>n\<close>, for \<open>n = 1, 2, ...\<close> in page order, one per page, joined by a blank line; the
  block of a page without text (\<open>None\<close> or the empty string) is the heading and the
  blank line with an empty body.
\<close>

theorem pdf_to_markdown_blocks:
  assumes "PDFPLUMBER_AVAILABLE env"
      and "pdfplumber_open env pdf_bytes = Inr doc"
      and "pdf_pages doc = map Inr texts"
      and "pdf_close doc = None"
  shows "pdf_to_markdown env pdf_bytes =
           (join (py ''\<newline>\<newline>'')
              (map (\<lambda>k. page_block (k + 1) (strip (or_empty (texts ! k)))) [0..<length texts]),
            [])
         \<and> (\<forall>k < length texts. texts ! k = None \<or> texts ! k = Some [] \<longrightarrow>
               page_block (k + 1) (strip (or_empty (texts ! k))) =
                 py ''## Page '' @ str_nat (k + 1) @ py ''\<newline>\<newline>'')"
proof
  show "pdf_to_markdown env pdf_bytes =
           (join (py ''\<newline>\<newline>'')
              (map (\<lambda>k. page_block (k + 1) (strip (or_empty (texts ! k)))) [0..<length texts]),
            [])"
    using assms by (simp add: pdf_to_markdown_def with_pdf_def pages_loop_all_returned)
next
  show "\<forall>k < length texts. texts ! k = None \<or> texts ! k = Some [] \<longrightarrow>
               page_block (k + 1) (strip (or_empty (texts ! k))) =
                 py ''## Page '' @ str_nat (k + 1) @ py ''\<newline>\<newline>''"
    by (auto simp: page_block_def strip_Nil)
qed

theorem pdf_to_markdown_blocks_witness:
  "PDFPLUMBER_AVAILABLE demo_env \<and> pdfplumber_open demo_env [] = Inr demo_pdf \<and>
   pdf_pages demo_pdf = map Inr [Some (py ''Hello''), None] \<and> pdf_close demo_pdf = None \<and>
   pdf_to_markdown demo_env [] =
     (py ''## Page 1\<newline>\<newline>Hello\<newline>\<newline>## Page 2\<newline>\<newline>'', [])"
  using pdf_to_markdown_blocks [of demo_env "[]" demo_pdf "[Some (py ''Hello''), None]"]
  by (simp add: demo_env_def env_of_def demo_pdf_def page_block_def py_def strip_def isspace_def
        str_nat.simps upt_conv_Cons)

section \<open>The language table, evaluated\<close>

lemma LANG_NAME_TO_CODE_eq:
  "LANG_NAME_TO_CODE = map (\<lambda>(k, v). (v, k)) DEEPL_SUPPORTED_LANGS"
  by (simp add: LANG_NAME_TO_CODE_def DEEPL_SUPPORTED_LANGS_def py_def)

lemma English_code: "map_of LANG_NAME_TO_CODE (py ''English'') = Some (py ''EN'')"
  by (simp add: LANG_NAME_TO_CODE_eq DEEPL_SUPPORTED_LANGS_def py_def)

lemma French_code: "map_of LANG_NAME_TO_CODE (py ''French'') = Some (py ''FR'')"
  by (simp add: LANG_NAME_TO_CODE_eq DEEPL_SUPPORTED_LANGS_def py_def)

lemma Klingon_no_code: "py ''Klingon'' \<notin> fst ` set LANG_NAME_TO_CODE"
  by (simp add: LANG_NAME_TO_CODE_eq DEEPL_SUPPORTED_LANGS_def py_def)

lemma French_not_English: "py ''French'' \<noteq> py ''English''"
  by (simp add: py_def)

lemma demo_md_not_empty: "demo_md \<noteq> []"
  by (simp add: demo_md_def py_def)

section \<open>The translate action\<close>

text \<open>
  Claim C2. The claim says that with the credential of the selected provider unset, the
  translate action warns and does nothing, and in particular makes no outbound call. The
  code shows the warning and then draws the button all the same. Evaluated on a session
  without keys, with French selected and the button clicked: on the DeepL path the POST
  is made, with \<open>auth_key\<close> being \<open>None\<close>, and DeepL's answer (here 403) is shown; on the
  o3-mini path no call is made, and the \<open>AttributeError\<close> of \<open>openai_client.chat\<close> on
  \<open>None\<close> is shown as an error.
\<close>

theorem translate_without_credential:
  "translation_container (env_of (Inr demo_pdf) (Inr forbidden_response) (Inr [Some (py ''Bonjour'')]))
      DeepL no_key_session (click (py ''French'')) =
     ([Subheader_translate, Warning_add_deepl_key, Spinner DeepL,
       Error_deepl 403 (py ''Forbidden'')],
      [Post \<lparr>url = py ''https://api-free.deepl.com/v2/translate'', data_auth_key = None,
             data_text = demo_md, data_target_lang = py ''FR'', timeout = 30\<rparr>],
      no_key_session)
   \<and> translation_container (env_of (Inr demo_pdf) (Inr forbidden_response) (Inr [Some (py ''Bonjour'')]))
      O3_mini no_key_session (click (py ''French'')) =
     ([Subheader_translate, Warning_add_openai_key, Spinner O3_mini,
       Error_o3_mini AttributeError],
      [], no_key_session)"
  by (simp add: translation_container_def translate_action_def deepl_branch_def
        o3_mini_branch_def openai_client_def no_key_session_def click_def env_of_def
        forbidden_response_def French_code French_not_English demo_md_not_empty)

text \<open>
  Claim C3. For a target language name that is not a key of \<open>LANG_NAME_TO_CODE\<close>, the
  DeepL branch fails with the \<open>KeyError\<close> of the lookup, reported as a failed DeepL
  request, and makes no outbound call; so does the translate action on the DeepL path,
  leaving the session as it was.
\<close>

theorem deepl_unsupported_language:
  assumes "target inp \<notin> fst ` set LANG_NAME_TO_CODE"
  shows "deepl_branch env s src_md (target inp) =
           ([Error_deepl_request_failed (KeyError (KStr (target inp)))], [])
         \<and> (analysis_result s = Some src_md \<and> src_md \<noteq> [] \<and> translate_clicked inp \<longrightarrow>
              translation_container env DeepL s inp =
                ([Subheader_translate] @
                 (if truthy (DEEPL_API_KEY s) then [] else [Warning_add_deepl_key]) @
                 [Spinner DeepL, Error_deepl_request_failed (KeyError (KStr (target inp)))],
                 [], s))"
proof -
  from assms have none: "map_of LANG_NAME_TO_CODE (target inp) = None"
    by (simp add: map_of_eq_None_iff)
  have "py ''English'' \<in> fst ` set LANG_NAME_TO_CODE"
    using English_code by (metis map_of_eq_None_iff option.distinct(1))
  with assms have ne: "target inp \<noteq> py ''English''" by metis
  have branch: "deepl_branch env s src_md (target inp) =
           ([Error_deepl_request_failed (KeyError (KStr (target inp)))], [])"
    by (simp add: deepl_branch_def none)
  show ?thesis
    by (simp add: branch translation_container_def translate_action_def ne)
qed

theorem deepl_unsupported_language_witness:
  "target (click (py ''Klingon'')) \<notin> fst ` set LANG_NAME_TO_CODE \<and>
   analysis_result keyed_session = Some demo_md \<and> demo_md \<noteq> [] \<and>
   translate_clicked (click (py ''Klingon'')) \<and>
   translation_container demo_env DeepL keyed_session (click (py ''Klingon'')) =
     ([Subheader_translate, Spinner DeepL,
       Error_deepl_request_failed (KeyError (KStr (py ''Klingon'')))], [], keyed_session)"
  using deepl_unsupported_language [of "click (py ''Klingon'')" demo_env keyed_session demo_md]
    Klingon_no_code demo_md_not_empty
  by (simp add: click_def keyed_session_def py_def)

text \<open>
  Claim C4. For a target language with code \<open>code\<close>, the DeepL branch makes exactly one
  call, the POST with the session's key, the source text, the code and the timeout 30.
  A response of status 200 whose JSON is \<open>{"translations":[{"text": t}]}\<close> shows \<open>t\<close>
  unchanged; a response of any other status shows the DeepL error with the status code
  and the response body; an exception of the POST shows the failed request with that
  exception.
\<close>

theorem deepl_branch_outcomes:
  assumes "map_of LANG_NAME_TO_CODE lang = Some code"
  shows "snd (deepl_branch env s src_md lang) =
           [Post \<lparr>url = py ''https://api-free.deepl.com/v2/translate'',
                  data_auth_key = DEEPL_API_KEY s, data_text = src_md,
                  data_target_lang = code, timeout = 30\<rparr>]
         \<and> (\<forall>resp t. requests_post env (deepl_request_of s src_md code) = Inr resp \<and>
                status_code resp = 200 \<and>
                resp_json resp =
                  Inr (PyDict [(py ''translations'', PyList [PyDict [(py ''text'', PyStr t)]])]) \<longrightarrow>
                fst (deepl_branch env s src_md lang) =
                  [Markdown_translated lang, Markdown (PyStr t)])
         \<and> (\<forall>resp. requests_post env (deepl_request_of s src_md code) = Inr resp \<and>
                status_code resp \<noteq> 200 \<longrightarrow>
                fst (deepl_branch env s src_md lang) =
                  [Error_deepl (status_code resp) (resp_text resp)])
         \<and> (\<forall>ex. requests_post env (deepl_request_of s src_md code) = Inl ex \<longrightarrow>
                fst (deepl_branch env s src_md lang) = [Error_deepl_request_failed ex])"
proof -
  have tr: "first_translation resp = Inr (PyStr t)"
    if "resp_json resp =
          Inr (PyDict [(py ''translations'', PyList [PyDict [(py ''text'', PyStr t)]])])"
    for resp t
    using that by (simp add: first_translation_def seq_index_def)
  show ?thesis
    using assms
    by (auto simp: deepl_branch_def deepl_request_of_def Let_def tr split: sum.splits)
qed

theorem deepl_branch_outcomes_witness:
  "map_of LANG_NAME_TO_CODE (py ''French'') = Some (py ''FR'') \<and>
   deepl_branch (env_of (Inr demo_pdf) (Inr bonjour_response) (Inl (LibraryError [])))
       keyed_session demo_md (py ''French'') =
     ([Markdown_translated (py ''French''), Markdown (PyStr (py ''Bonjour''))],
      [Post \<lparr>url = py ''https://api-free.deepl.com/v2/translate'',
             data_auth_key = Some (py ''dl-test''), data_text = demo_md,
             data_target_lang = py ''FR'', timeout = 30\<rparr>]) \<and>
   fst (deepl_branch (env_of (Inr demo_pdf) (Inr forbidden_response) (Inl (LibraryError [])))
       keyed_session demo_md (py ''French'')) = [Error_deepl 403 (py ''Forbidden'')] \<and>
   fst (deepl_branch (env_of (Inr demo_pdf) (Inl (LibraryError (py ''timed out''))) (Inl (LibraryError [])))
       keyed_session demo_md (py ''French'')) =
     [Error_deepl_request_failed (LibraryError (py ''timed out''))]"
  using
    deepl_branch_outcomes [OF French_code,
      of "env_of (Inr demo_pdf) (Inr bonjour_response) (Inl (LibraryError []))" keyed_session demo_md]
    deepl_branch_outcomes [OF French_code,
      of "env_of (Inr demo_pdf) (Inr forbidden_response) (Inl (LibraryError []))" keyed_session demo_md]
    deepl_branch_outcomes [OF French_code,
      of "env_of (Inr demo_pdf) (Inl (LibraryError (py ''timed out''))) (Inl (LibraryError []))"
         keyed_session demo_md]
    French_code
  by (simp add: env_of_def bonjour_response_def forbidden_response_def keyed_session_def
        prod_eq_iff)

text \<open>
  Claim C6. With a non-empty Markdown stored, selecting English makes the translation
  section show "no translation needed" only: no outbound call, session unchanged,
  whatever the provider and whether or not the button was clicked.
\<close>

theorem translate_to_English_noop:
  assumes "analysis_result s = Some src_md" and "src_md \<noteq> []"
      and "target inp = py ''English''"
  shows "translation_container env translation_provider s inp =
           ([Subheader_translate, Info_already_english], [], s)"
  using assms by (simp add: translation_container_def translate_action_def)

theorem translate_to_English_noop_witness:
  "analysis_result keyed_session = Some demo_md \<and> demo_md \<noteq> [] \<and>
   target (click (py ''English'')) = py ''English'' \<and>
   translation_container demo_env DeepL keyed_session (click (py ''English'')) =
     ([Subheader_translate, Info_already_english], [], keyed_session)"
  using translate_to_English_noop [of keyed_session demo_md "click (py ''English'')" demo_env DeepL]
    demo_md_not_empty
  by (simp add: keyed_session_def click_def)

text \<open>
  Claim C7. With a client (key \<open>k\<close>), the o3-mini branch makes exactly one call: model
  \<open>o3-mini\<close>, a system message that names the target language by its display name and
  asks to preserve headings and formatting and to respond only with the translation,
  and the source Markdown as the one user message. When the first choice has a text,
  the text is shown stripped; an exception of the call is shown as the o3-mini error
  with that exception.
\<close>

theorem o3_mini_branch_outcomes:
  assumes "openai_client env s = Some k"
  shows "snd (o3_mini_branch env s src_md lang) = [Create (chat_request_of k src_md lang)]
         \<and> (\<forall>c rest. chat_completions_create env (chat_request_of k src_md lang) =
                       Inr (Some c # rest) \<longrightarrow>
               fst (o3_mini_branch env s src_md lang) =
                 [Markdown_translated lang, Markdown (PyStr (strip c))])
         \<and> (\<forall>ex. chat_completions_create env (chat_request_of k src_md lang) = Inl ex \<longrightarrow>
               fst (o3_mini_branch env s src_md lang) = [Error_o3_mini ex])"
proof -
  have msg: "system_msg lang =
      py ''Translate the following Markdown into '' @ lang @
      py '', preserving all headings and formatting. Respond ONLY with the translation.''"
    by (simp add: system_msg_def py_def)
  show ?thesis
    using assms
    by (auto simp: o3_mini_branch_def chat_request_of_def msg Let_def seq_index_def
             split: sum.splits option.splits)
qed

theorem o3_mini_branch_outcomes_witness:
  "openai_client demo_env keyed_session = Some (py ''sk-test'') \<and>
   o3_mini_branch (env_of (Inr demo_pdf) (Inl (LibraryError [])) (Inr [Some (py '' Bonjour\<newline>'')]))
       keyed_session demo_md (py ''French'') =
     ([Markdown_translated (py ''French''), Markdown (PyStr (py ''Bonjour''))],
      [Create (chat_request_of (py ''sk-test'') demo_md (py ''French''))]) \<and>
   fst (o3_mini_branch (env_of (Inr demo_pdf) (Inl (LibraryError [])) (Inl (LibraryError (py ''rate limit''))))
       keyed_session demo_md (py ''French'')) =
     [Error_o3_mini (LibraryError (py ''rate limit''))]"
proof -
  have k1: "openai_client (env_of (Inr demo_pdf) (Inl (LibraryError []))
               (Inr [Some (py '' Bonjour\<newline>'')])) keyed_session = Some (py ''sk-test'')"
    by (simp add: openai_client_def env_of_def keyed_session_def py_def)
  have k2: "openai_client (env_of (Inr demo_pdf) (Inl (LibraryError []))
               (Inl (LibraryError (py ''rate limit'')))) keyed_session = Some (py ''sk-test'')"
    by (simp add: openai_client_def env_of_def keyed_session_def py_def)
  have k3: "openai_client demo_env keyed_session = Some (py ''sk-test'')"
    by (simp add: openai_client_def demo_env_def env_of_def keyed_session_def py_def)
  have st: "strip (py '' Bonjour\<newline>'') = py ''Bonjour''"
    by (simp add: strip_def isspace_def py_def)
  show ?thesis
    using k3 st o3_mini_branch_outcomes [OF k1, of demo_md "py ''French''"]
      o3_mini_branch_outcomes [OF k2, of demo_md "py ''French''"]
    by (simp add: env_of_def prod_eq_iff)
qed

section \<open>Failures\<close>

text \<open>
  Claim C5. When the PDF library is unavailable, when opening the PDF raises, and when
  reading a page or closing raises, \<open>pdf_to_markdown\<close> returns the empty string and
  reports one error (the import error, or the exception); it returns a value in every
  case. On an empty result the convert action goes on: it shows "No output" and stores
  the empty string.
\<close>

theorem pdf_to_markdown_failures:
  "(\<not> PDFPLUMBER_AVAILABLE env \<longrightarrow>
      pdf_to_markdown env pdf_bytes = ([], [Error_pdfplumber_import (PDFPLUMBER_ERR env)]))
   \<and> (\<forall>ex. PDFPLUMBER_AVAILABLE env \<and> pdfplumber_open env pdf_bytes = Inl ex \<longrightarrow>
         pdf_to_markdown env pdf_bytes = ([], [Error_pdf_parsing ex]))
   \<and> (\<forall>doc ex. PDFPLUMBER_AVAILABLE env \<and> pdfplumber_open env pdf_bytes = Inr doc \<and>
         with_pdf doc = Inl ex \<longrightarrow>
         pdf_to_markdown env pdf_bytes = ([], [Error_pdf_parsing ex]))
   \<and> (fst (pdf_to_markdown env pdf_bytes) = [] \<longrightarrow>
         convert_action env s True (Some pdf_bytes) =
           ([Subheader_pdf_markdown] @ snd (pdf_to_markdown env pdf_bytes) @
            [Markdown (PyStr (py ''### Resulting Markdown'')),
             Markdown (PyStr (py ''*No output*''))],
            s\<lparr>analysis_result := Some []\<rparr>))"
  by (auto simp: pdf_to_markdown_def convert_action_def split: sum.splits prod.splits)

theorem pdf_to_markdown_failures_witness:
  "\<not> PDFPLUMBER_AVAILABLE no_pdfplumber_env \<and>
   pdf_to_markdown no_pdfplumber_env [] =
     ([], [Error_pdfplumber_import (py ''ModuleNotFoundError'')]) \<and>
   pdf_to_markdown (env_of (Inl (LibraryError (py ''No /Root object''))) (Inl (LibraryError []))
       (Inl (LibraryError []))) [] =
     ([], [Error_pdf_parsing (LibraryError (py ''No /Root object''))]) \<and>
   with_pdf failing_pdf = Inl (LibraryError (py ''bad page'')) \<and>
   pdf_to_markdown (env_of (Inr failing_pdf) (Inl (LibraryError [])) (Inl (LibraryError []))) [] =
     ([], [Error_pdf_parsing (LibraryError (py ''bad page''))]) \<and>
   convert_action no_pdfplumber_env keyed_session True (Some []) =
     ([Subheader_pdf_markdown, Error_pdfplumber_import (py ''ModuleNotFoundError''),
       Markdown (PyStr (py ''### Resulting Markdown'')), Markdown (PyStr (py ''*No output*''))],
      keyed_session\<lparr>analysis_result := Some []\<rparr>)"
proof -
  have w: "with_pdf failing_pdf = Inl (LibraryError (py ''bad page''))"
    by (simp add: with_pdf_def failing_pdf_def)
  show ?thesis
    using w
      pdf_to_markdown_failures [of no_pdfplumber_env "[]" keyed_session]
      pdf_to_markdown_failures [of "env_of (Inl (LibraryError (py ''No /Root object'')))
          (Inl (LibraryError [])) (Inl (LibraryError []))" "[]" keyed_session]
      pdf_to_markdown_failures [of "env_of (Inr failing_pdf) (Inl (LibraryError []))
          (Inl (LibraryError []))" "[]" keyed_session]
    by (simp add: no_pdfplumber_env_def env_of_def)
qed

text \<open>
  Claim C8. The translation section never changes the stored Markdown, and the convert
  action never changes the two keys, whatever their outcome (so also when they fail).
\<close>

theorem failures_preserve_partial_results:
  "analysis_result (snd (snd (translation_container env translation_provider s inp))) =
     analysis_result s
   \<and> OPENAI_API_KEY (snd (convert_action env s clicked upload)) = OPENAI_API_KEY s
   \<and> DEEPL_API_KEY (snd (convert_action env s clicked upload)) = DEEPL_API_KEY s"
  by (simp add: translation_container_def translate_action_def convert_action_def Let_def
        split: option.splits prod.splits)

text \<open>
  Claim C10. For a PDF that opens and has no page, \<open>pdf_to_markdown\<close> returns the empty
  string and reports nothing; the empty string is also what it returns when opening
  fails; and after the convert action the translation section shows "run the
  conversion first" and makes no call, whatever is selected or clicked.
\<close>

theorem zero_page_pdf_blocks_translation:
  assumes "PDFPLUMBER_AVAILABLE env"
      and "pdfplumber_open env pdf_bytes = Inr doc"
      and "pdf_pages doc = []"
      and "pdf_close doc = None"
  shows "pdf_to_markdown env pdf_bytes = ([], [])
         \<and> (\<forall>env' bytes' ex. pdfplumber_open env' bytes' = Inl ex \<longrightarrow>
               fst (pdf_to_markdown env' bytes') = fst (pdf_to_markdown env pdf_bytes))
         \<and> translation_container env translation_provider
               (snd (convert_action env s True (Some pdf_bytes))) inp =
             ([Subheader_translate, Info_run_conversion_first], [],
              s\<lparr>analysis_result := Some []\<rparr>)"
proof -
  have ok: "pdf_to_markdown env pdf_bytes = ([], [])"
    using assms by (simp add: pdf_to_markdown_def with_pdf_def)
  have failed: "fst (pdf_to_markdown env' bytes') = []"
    if "pdfplumber_open env' bytes' = Inl ex" for env' bytes' ex
    using that by (simp add: pdf_to_markdown_def)
  have blocked: "translation_container env translation_provider
               (snd (convert_action env s True (Some pdf_bytes))) inp =
             ([Subheader_translate, Info_run_conversion_first], [],
              s\<lparr>analysis_result := Some []\<rparr>)"
    by (simp add: convert_action_def ok translation_container_def)
  from ok failed blocked show ?thesis by simp
qed

theorem zero_page_pdf_blocks_translation_witness:
  "PDFPLUMBER_AVAILABLE (env_of (Inr empty_pdf) (Inr bonjour_response) (Inl (LibraryError []))) \<and>
   pdf_pages empty_pdf = [] \<and> pdf_close empty_pdf = None \<and>
   pdf_to_markdown (env_of (Inr empty_pdf) (Inr bonjour_response) (Inl (LibraryError []))) [] =
     ([], []) \<and>
   fst (pdf_to_markdown (env_of (Inl (LibraryError (py ''No /Root object'')))
          (Inr bonjour_response) (Inl (LibraryError []))) []) = [] \<and>
   translation_container (env_of (Inr empty_pdf) (Inr bonjour_response) (Inl (LibraryError [])))
       DeepL
       (snd (convert_action (env_of (Inr empty_pdf) (Inr bonjour_response) (Inl (LibraryError [])))
               keyed_session True (Some [])))
       (click (py ''French'')) =
     ([Subheader_translate, Info_run_conversion_first], [],
      keyed_session\<lparr>analysis_result := Some []\<rparr>)"
proof -
  have a: "PDFPLUMBER_AVAILABLE (env_of (Inr empty_pdf) (Inr bonjour_response) (Inl (LibraryError [])))"
    by (simp add: env_of_def)
  have b: "pdfplumber_open (env_of (Inr empty_pdf) (Inr bonjour_response) (Inl (LibraryError []))) [] =
             Inr empty_pdf"
    by (simp add: env_of_def)
  have c: "pdf_pages empty_pdf = []" and d: "pdf_close empty_pdf = None"
    by (simp_all add: empty_pdf_def)
  have e: "pdfplumber_open (env_of (Inl (LibraryError (py ''No /Root object'')))
          (Inr bonjour_response) (Inl (LibraryError []))) [] = Inl (LibraryError (py ''No /Root object''))"
    by (simp add: env_of_def)
  show ?thesis
    using a c d e
      zero_page_pdf_blocks_translation [OF a b c d, of DeepL keyed_session "click (py ''French'')"]
    by simp
qed

end
